theory Spec2Isabelle
  imports Main "HOL-Library.Sublist"
begin

section \<open>The command dispatcher of \<^verbatim>\<open>run.py\<close>\<close>

text \<open>
  \<^verbatim>\<open>run.py\<close> is a single module: a docstring, \<^verbatim>\<open>run_command\<close>, \<^verbatim>\<open>main\<close> and the
  \<^verbatim>\<open>__main__\<close> block. Everything the module does to the outside world is a call of
  \<^verbatim>\<open>print\<close> or the one call of \<^verbatim>\<open>subprocess.run\<close>, so the model returns, next to the
  value of each function, the ordered list of these calls.
\<close>

subsection \<open>Strings\<close>

text \<open>
  \<^verbatim>\<open>str.lower()\<close>, on the ASCII range: the letters \<^verbatim>\<open>A\<close> to \<^verbatim>\<open>Z\<close> (codes 65 to 90) move
  to \<^verbatim>\<open>a\<close> to \<^verbatim>\<open>z\<close>, every other character stays. A \<^typ>\<open>char\<close> is a byte, so a code
  point beyond ASCII is left as it is here, where Python would lowercase it by the Unicode
  tables. The keys of the command table and the help aliases are ASCII.
\<close>

definition lower_char :: "char \<Rightarrow> char" where
  "lower_char c =
     (let n = (of_char c :: nat) in if 65 \<le> n \<and> n \<le> 90 then char_of (n + 32) else c)"

definition lower :: "string \<Rightarrow> string" where
  "lower s = map lower_char s"

text \<open>\<^verbatim>\<open>sep.join(parts)\<close>.\<close>

fun join :: "string \<Rightarrow> string list \<Rightarrow> string" where
  "join sep [] = []"
| "join sep [x] = x"
| "join sep (x # y # ys) = x @ sep @ join sep (y # ys)"

subsection \<open>The module docstring\<close>

text \<open>\<^verbatim>\<open>__doc__\<close>: the text between the triple quotes, line by line.\<close>

definition doc_lines :: "string list" where
  "doc_lines =
     ['''',
      ''Azure Sparkle Portfolio - Application Entry Point'',
      '''',
      ''This script provides a convenient entry point for running common development tasks.'',
      ''For a Node.js project like this, it acts as a wrapper around npm commands.'',
      '''',
      ''Usage:'',
      ''    python run.py dev        # Start development server'',
      ''    python run.py build      # Build for production'',
      ''    python run.py test       # Run tests'',
      ''    python run.py lint       # Run linter'',
      ''    python run.py format     # Format code'',
      ''    python run.py install    # Install dependencies'',
      ''    python run.py help       # Show this help message'']"

definition doc :: string where
  "doc = concat (map (\<lambda>l. l @ [CHR 0x0A]) doc_lines)"

subsection \<open>Errors, effects and the environment\<close>

text \<open>
  The exceptions the module can meet: \<^verbatim>\<open>IndexError\<close> from \<^verbatim>\<open>sys.argv[1]\<close>, \<^verbatim>\<open>KeyError\<close>
  from \<^verbatim>\<open>commands[command]\<close>, and whatever \<^verbatim>\<open>subprocess.run\<close> raises (named by its
  class), which nothing in the module catches.
\<close>

datatype error = IndexError | KeyError | Raised string

text \<open>The keyword arguments of the call \<^verbatim>\<open>subprocess.run(command, cwd=cwd, shell=True)\<close>.\<close>

record invocation =
  args :: "string list"
  cwd :: "string option"
  shell :: bool

text \<open>
  \<^verbatim>\<open>Print s\<close> is \<^verbatim>\<open>print(s)\<close>: the text and a newline on standard output.
  \<^verbatim>\<open>Run i\<close> is the call of \<^verbatim>\<open>subprocess.run\<close>, which starts one child process and waits
  for it.
\<close>

datatype event = Print string | Run invocation

text \<open>
  What the module reads from outside: \<^verbatim>\<open>__file__\<close>, the library functions
  \<^verbatim>\<open>os.path.abspath\<close> and \<^verbatim>\<open>os.path.dirname\<close>, and \<^verbatim>\<open>subprocess.run\<close>, which either raises
  (\<^verbatim>\<open>Inl\<close> the exception's class) or returns a result whose \<^verbatim>\<open>returncode\<close> is the integer.
\<close>

record env =
  script_file :: string
  abspath :: "string \<Rightarrow> string"
  dirname :: "string \<Rightarrow> string"
  subprocess_run :: "invocation \<Rightarrow> string + int"

definition stdout :: "event list \<Rightarrow> string" where
  "stdout evs = concat (map (\<lambda>e. case e of Print s \<Rightarrow> s @ [CHR 0x0A] | Run _ \<Rightarrow> []) evs)"

definition spawned :: "event list \<Rightarrow> invocation list" where
  "spawned evs = concat (map (\<lambda>e. case e of Print _ \<Rightarrow> [] | Run i \<Rightarrow> [i]) evs)"

subsection \<open>Indexing\<close>

text \<open>\<^verbatim>\<open>xs[i]\<close> for a list and an index that is not negative.\<close>

definition index :: "'a list \<Rightarrow> nat \<Rightarrow> error + 'a" where
  "index xs i = (if i < length xs then Inr (xs ! i) else Inl IndexError)"

text \<open>
  A dict literal keeps the order of its entries, and iterating it gives the keys in that
  order: an association list. \<^verbatim>\<open>k in d\<close> and \<^verbatim>\<open>d[k]\<close> look the key up.
\<close>

type_synonym table = "(string \<times> string list) list"

definition keys :: "table \<Rightarrow> string list" where
  "keys d = map fst d"

definition contains :: "table \<Rightarrow> string \<Rightarrow> bool" where
  "contains d k = (case map_of d k of None \<Rightarrow> False | Some _ \<Rightarrow> True)"

definition getitem :: "table \<Rightarrow> string \<Rightarrow> error + string list" where
  "getitem d k = (case map_of d k of None \<Rightarrow> Inl KeyError | Some v \<Rightarrow> Inr v)"

subsection \<open>The program\<close>

text \<open>\<^verbatim>\<open>run_command(command, cwd)\<close>: the echo line, then the child, then its return code.\<close>

definition run_command :: "env \<Rightarrow> string list \<Rightarrow> string option \<Rightarrow> event list \<times> (error + int)" where
  "run_command e command dir =
     (let call = \<lparr>args = command, cwd = dir, shell = True\<rparr>;
          evs = [Print (''Running: '' @ join '' '' command), Run call]
      in case subprocess_run e call of
           Inl x \<Rightarrow> (evs, Inl (Raised x))
         | Inr returncode \<Rightarrow> (evs, Inr returncode))"

text \<open>The dict literal \<^verbatim>\<open>commands\<close> of \<^verbatim>\<open>main\<close>.\<close>

definition commands :: table where
  "commands =
     [(''dev'', [''npm'', ''run'', ''dev'']),
      (''build'', [''npm'', ''run'', ''build'']),
      (''test'', [''npm'', ''run'', ''test'']),
      (''test:coverage'', [''npm'', ''run'', ''test:coverage'']),
      (''lint'', [''npm'', ''run'', ''lint'']),
      (''format'', [''npm'', ''run'', ''format'']),
      (''install'', [''npm'', ''install'']),
      (''start'', [''npm'', ''run'', ''swa:start'']),
      (''preview'', [''npm'', ''run'', ''preview''])]"

text \<open>\<^verbatim>\<open>main()\<close>, with \<^verbatim>\<open>sys.argv\<close> as its argument.\<close>

definition main :: "env \<Rightarrow> string list \<Rightarrow> event list \<times> (error + int)" where
  "main e argv =
     (if length argv < 2 then ([Print doc], Inr 0)
      else case index argv 1 of
        Inl x \<Rightarrow> ([], Inl x)
      | Inr a \<Rightarrow>
         (let command = lower a;
              project_dir = dirname e (abspath e (script_file e))
          in if command = ''help'' \<or> command = ''--help'' \<or> command = ''-h'' then
               ([Print doc, Print ''Available commands:'']
                  @ map (\<lambda>cmd. Print (''  '' @ cmd)) (keys commands), Inr 0)
             else if contains commands command then
               (case getitem commands command of
                  Inl x \<Rightarrow> ([], Inl x)
                | Inr invocation \<Rightarrow> run_command e invocation (Some project_dir))
             else
               ([Print (''Unknown command: '' @ command),
                 Print ''Run 'python run.py help' for available commands.''],
                Inr 1)))"

text \<open>
  The \<^verbatim>\<open>__main__\<close> block, \<^verbatim>\<open>sys.exit(main())\<close>: the process ends with the status \<^verbatim>\<open>main\<close>
  returned, or with the exception that went through \<^verbatim>\<open>main\<close>.
\<close>

datatype outcome = SystemExit int | Uncaught error

definition script :: "env \<Rightarrow> string list \<Rightarrow> event list \<times> outcome" where
  "script e argv =
     (case main e argv of
        (evs, Inl x) \<Rightarrow> (evs, Uncaught x)
      | (evs, Inr status) \<Rightarrow> (evs, SystemExit status))"

text \<open>
  An environment to run the model in: the script lies at \<^verbatim>\<open>/srv/portfolio/run.py\<close>, and
  every child process ends with the return code \<open>rc\<close>.
\<close>

fun strip_last :: "string \<Rightarrow> string" where
  "strip_last s = rev (tl (dropWhile (\<lambda>c. c \<noteq> CHR ''/'') (rev s)))"

definition sample_env :: "int \<Rightarrow> env" where
  "sample_env rc =
     \<lparr>script_file = ''/srv/portfolio/run.py'', abspath = (\<lambda>p. p), dirname = strip_last,
      subprocess_run = (\<lambda>_. Inr rc)\<rparr>"

text \<open>The value of \<^verbatim>\<open>project_dir\<close>, and the three spellings of the help request.\<close>

abbreviation tool_dir :: "env \<Rightarrow> string" where
  "tool_dir e \<equiv> dirname e (abspath e (script_file e))"

abbreviation help_aliases :: "string set" where
  "help_aliases \<equiv> {''help'', ''--help'', ''-h''}"

section \<open>Properties\<close>

subsection \<open>Lowercasing and the four branches of \<^verbatim>\<open>main\<close>\<close>

lemma lower_char_idem: "lower_char (lower_char c) = lower_char c"
  by (simp add: lower_char_def Let_def)

lemma lower_idem: "lower (lower s) = lower s"
  by (simp add: lower_def lower_char_idem)

lemma known_not_help: "map_of commands k = Some t \<Longrightarrow> k \<notin> help_aliases"
  by (auto simp: commands_def split: if_splits)

lemma main_short: "length argv < 2 \<Longrightarrow> main e argv = ([Print doc], Inr 0)"
  by (simp add: main_def)

lemma main_help:
  assumes "lower a \<in> help_aliases"
  shows "main e (p # a # r) =
           ([Print doc, Print ''Available commands:'']
              @ map (\<lambda>cmd. Print (''  '' @ cmd)) (keys commands), Inr 0)"
  using assms by (auto simp add: main_def index_def Let_def)

lemma main_known:
  assumes "map_of commands (lower a) = Some t"
  shows "main e (p # a # r) = run_command e t (Some (tool_dir e))"
  using assms known_not_help [OF assms]
  by (simp add: main_def index_def contains_def getitem_def Let_def)

lemma main_unknown:
  assumes "map_of commands (lower a) = None" and "lower a \<notin> help_aliases"
  shows "main e (p # a # r) =
           ([Print (''Unknown command: '' @ lower a),
             Print ''Run 'python run.py help' for available commands.''], Inr 1)"
  using assms by (simp add: main_def index_def contains_def getitem_def Let_def)

lemma run_command_events:
  "fst (run_command e t d) =
     [Print (''Running: '' @ join '' '' t), Run \<lparr>args = t, cwd = d, shell = True\<rparr>]"
  by (simp add: run_command_def Let_def split: sum.split)

lemma run_command_value:
  "snd (run_command e t d) =
     (case subprocess_run e \<lparr>args = t, cwd = d, shell = True\<rparr> of
        Inl x \<Rightarrow> Inl (Raised x) | Inr rc \<Rightarrow> Inr rc)"
  by (simp add: run_command_def Let_def split: sum.split)

subsection \<open>The command table\<close>

lemma keys_commands:
  "keys commands = [''dev'', ''build'', ''test'', ''test:coverage'', ''lint'', ''format'',
                    ''install'', ''start'', ''preview'']"
  by (simp add: keys_def commands_def)

lemma lower_names: "k \<in> set (keys commands) \<Longrightarrow> lower k = k"
  unfolding keys_commands
  by (auto simp: lower_def lower_char_def)

lemma distinct_keys: "distinct (map fst commands)"
  by (simp add: commands_def)

lemma map_of_commands_iff: "map_of commands k = Some t \<longleftrightarrow> (k, t) \<in> set commands"
  by (rule map_of_eq_Some_iff [OF distinct_keys])

subsection \<open>Dispatch of the supported commands\<close>

text \<open>
  Claim C1. For each of the nine supported names, given as the first argument (whatever
  follows it), \<^verbatim>\<open>main\<close> calls \<^verbatim>\<open>subprocess.run\<close> exactly once, with the token sequence
  written next to the name below, and with \<^verbatim>\<open>cwd\<close> the directory of the script. The call
  carries \<^verbatim>\<open>shell=True\<close>: what the platform's shell then makes of the tokens is outside
  the module.
\<close>

theorem dispatch_known_command:
  assumes "(name, tokens) \<in> set
             [(''dev'', [''npm'', ''run'', ''dev'']),
              (''build'', [''npm'', ''run'', ''build'']),
              (''test'', [''npm'', ''run'', ''test'']),
              (''test:coverage'', [''npm'', ''run'', ''test:coverage'']),
              (''lint'', [''npm'', ''run'', ''lint'']),
              (''format'', [''npm'', ''run'', ''format'']),
              (''install'', [''npm'', ''install'']),
              (''start'', [''npm'', ''run'', ''swa:start'']),
              (''preview'', [''npm'', ''run'', ''preview''])]"
  shows "spawned (fst (main e (prog # name # rest))) =
           [\<lparr>args = tokens, cwd = Some (tool_dir e), shell = True\<rparr>]"
proof -
  from assms have m: "(name, tokens) \<in> set commands"
    unfolding commands_def .
  then have "fst (name, tokens) \<in> fst ` set commands"
    by (rule imageI)
  then have "name \<in> set (keys commands)"
    by (simp add: keys_def)
  then have l: "lower name = name"
    by (rule lower_names)
  from m have "map_of commands name = Some tokens"
    by (simp only: map_of_commands_iff)
  with l have "main e (prog # name # rest) = run_command e tokens (Some (tool_dir e))"
    by (simp add: main_known)
  then show ?thesis
    by (simp add: run_command_events spawned_def)
qed

theorem dispatch_known_command_witness:
  "spawned (fst (main (sample_env 0) [''run.py'', ''build''])) =
     [\<lparr>args = [''npm'', ''run'', ''build''], cwd = Some ''/srv/portfolio'', shell = True\<rparr>]
   \<and> spawned (fst (main (sample_env 0) [''run.py'', ''install''])) =
     [\<lparr>args = [''npm'', ''install''], cwd = Some ''/srv/portfolio'', shell = True\<rparr>]
   \<and> spawned (fst (main (sample_env 0) [''run.py'', ''start''])) =
     [\<lparr>args = [''npm'', ''run'', ''swa:start''], cwd = Some ''/srv/portfolio'',
       shell = True\<rparr>]"
  using dispatch_known_command
          [of "''build''" "[''npm'', ''run'', ''build'']" "sample_env 0" "''run.py''" "[]"]
        dispatch_known_command
          [of "''install''" "[''npm'', ''install'']" "sample_env 0" "''run.py''" "[]"]
        dispatch_known_command
          [of "''start''" "[''npm'', ''run'', ''swa:start'']" "sample_env 0" "''run.py''" "[]"]
  by (simp add: sample_env_def)

subsection \<open>The exit status\<close>

lemma script_outcome:
  "snd (script e argv) =
     (case snd (main e argv) of Inl x \<Rightarrow> Uncaught x | Inr s \<Rightarrow> SystemExit s)"
  by (simp add: script_def split: prod.split sum.split)

text \<open>
  Claim C2. When the first argument, lowercased, is a key of the table and the child ends
  with return code \<open>rc\<close>, \<^verbatim>\<open>main\<close> returns \<open>rc\<close> and the script exits with \<open>rc\<close>, for every
  integer \<open>rc\<close>.
\<close>

theorem exit_code_passthrough:
  assumes "map_of commands (lower a) = Some tokens"
      and "subprocess_run e \<lparr>args = tokens, cwd = Some (tool_dir e), shell = True\<rparr> = Inr rc"
  shows "snd (main e (prog # a # rest)) = Inr rc
         \<and> snd (script e (prog # a # rest)) = SystemExit rc"
proof -
  have "main e (prog # a # rest) = run_command e tokens (Some (tool_dir e))"
    using assms(1) by (rule main_known)
  moreover have "snd (run_command e tokens (Some (tool_dir e))) = Inr rc"
    using assms(2) by (simp add: run_command_value)
  ultimately show ?thesis
    by (simp add: script_outcome)
qed

theorem exit_code_passthrough_witness:
  "snd (script (sample_env 0) [''run.py'', ''test'']) = SystemExit 0
   \<and> snd (script (sample_env 1) [''run.py'', ''TEST'']) = SystemExit 1
   \<and> snd (script (sample_env 127) [''run.py'', ''lint'', ''--fix'']) = SystemExit 127
   \<and> snd (main (sample_env 127) [''run.py'', ''lint'', ''--fix'']) = Inr 127"
proof -
  have a: "map_of commands (lower ''test'') = Some [''npm'', ''run'', ''test'']"
    by code_simp
  have b: "map_of commands (lower ''TEST'') = Some [''npm'', ''run'', ''test'']"
    by code_simp
  have c: "map_of commands (lower ''lint'') = Some [''npm'', ''run'', ''lint'']"
    by code_simp
  show ?thesis
    using exit_code_passthrough [OF a, of "sample_env 0" 0 "''run.py''" "[]"]
          exit_code_passthrough [OF b, of "sample_env 1" 1 "''run.py''" "[]"]
          exit_code_passthrough [OF c, of "sample_env 127" 127 "''run.py''" "[''--fix'']"]
    by (simp add: sample_env_def)
qed


subsection \<open>Unknown commands\<close>

lemma stdout_Print: "stdout (Print s # evs) = s @ CHR 0x0A # stdout evs"
  by (simp add: stdout_def)

lemma stdout_Nil: "stdout [] = []"
  by (simp add: stdout_def)

text \<open>
  The message names the command after \<^verbatim>\<open>lower()\<close>: for the argument \<^verbatim>\<open>Frobnicate\<close>, which is
  neither a key nor a help alias, the output is \<^verbatim>\<open>Unknown command: frobnicate\<close> and the
  hint, and the token as the user wrote it is nowhere in it.
\<close>

theorem unknown_command_echoes_token_counterexample:
  "map_of commands (lower ''Frobnicate'') = None
   \<and> lower ''Frobnicate'' \<notin> help_aliases
   \<and> main (sample_env 0) [''run.py'', ''Frobnicate''] =
       ([Print ''Unknown command: frobnicate'',
         Print ''Run 'python run.py help' for available commands.''], Inr 1)
   \<and> \<not> sublist ''Frobnicate'' (stdout (fst (main (sample_env 0) [''run.py'', ''Frobnicate''])))"
proof -
  have l: "lower ''Frobnicate'' = ''frobnicate''"
    by code_simp
  have n: "map_of commands ''frobnicate'' = None"
    by (simp add: commands_def)
  have h: "''frobnicate'' \<notin> help_aliases"
    by simp
  have m: "main (sample_env 0) [''run.py'', ''Frobnicate''] =
       ([Print ''Unknown command: frobnicate'',
         Print ''Run 'python run.py help' for available commands.''], Inr 1)"
    using main_unknown [of "''Frobnicate''" "sample_env 0" "''run.py''" "[]"] l n h
    by simp
  have "CHR ''F'' \<notin> set (stdout (fst (main (sample_env 0) [''run.py'', ''Frobnicate''])))"
    by (simp add: m stdout_Print stdout_Nil)
  moreover have "CHR ''F'' \<in> set ''Frobnicate''"
    by simp
  ultimately have "\<not> sublist ''Frobnicate''
                      (stdout (fst (main (sample_env 0) [''run.py'', ''Frobnicate''])))"
    using set_mono_sublist by blast
  with l n h m show ?thesis
    by simp
qed

text \<open>
  Claim C3, as the code has it. For every first argument whose lowercased form is neither
  a key of the table nor a help alias, \<^verbatim>\<open>main\<close> prints the line \<^verbatim>\<open>Unknown command: \<close>
  followed by the lowercased argument, then the hint to run \<^verbatim>\<open>help\<close>, returns 1 and
  starts no child process.
\<close>

theorem unknown_command_reported:
  assumes "map_of commands (lower a) = None" and "lower a \<notin> help_aliases"
  shows "main e (prog # a # rest) =
           ([Print (''Unknown command: '' @ lower a),
             Print ''Run 'python run.py help' for available commands.''], Inr 1)
         \<and> sublist (lower a) (stdout (fst (main e (prog # a # rest))))
         \<and> spawned (fst (main e (prog # a # rest))) = []"
proof -
  have m: "main e (prog # a # rest) =
           ([Print (''Unknown command: '' @ lower a),
             Print ''Run 'python run.py help' for available commands.''], Inr 1)"
    using assms by (rule main_unknown)
  have "stdout (fst (main e (prog # a # rest))) =
          ''Unknown command: '' @ lower a @
             (CHR 0x0A # ''Run 'python run.py help' for available commands.'' @ [CHR 0x0A])"
    by (simp add: m stdout_Print stdout_Nil)
  then have "sublist (lower a) (stdout (fst (main e (prog # a # rest))))"
    unfolding sublist_def by blast
  moreover have "spawned (fst (main e (prog # a # rest))) = []"
    by (simp add: m spawned_def)
  ultimately show ?thesis
    using m by simp
qed

theorem unknown_command_reported_witness:
  "main (sample_env 0) [''run.py'', ''Frobnicate''] =
       ([Print ''Unknown command: frobnicate'',
         Print ''Run 'python run.py help' for available commands.''], Inr 1)
   \<and> sublist ''frobnicate'' (stdout (fst (main (sample_env 0) [''run.py'', ''Frobnicate''])))
   \<and> spawned (fst (main (sample_env 0) [''run.py'', ''Frobnicate''])) = []"
proof -
  have l: "lower ''Frobnicate'' = ''frobnicate''"
    by code_simp
  have n: "map_of commands (lower ''Frobnicate'') = None"
    by code_simp
  have h: "lower ''Frobnicate'' \<notin> help_aliases"
    by (simp add: l)
  show ?thesis
    using unknown_command_reported
            [OF n h, of "sample_env 0" "''run.py''" "[]", unfolded l append.simps] .
qed


subsection \<open>Help and usage\<close>

text \<open>
  Claim C4. For every first argument whose lowercased form is \<^verbatim>\<open>help\<close>, \<^verbatim>\<open>--help\<close> or
  \<^verbatim>\<open>-h\<close>, \<^verbatim>\<open>main\<close> prints the docstring, the heading \<^verbatim>\<open>Available commands:\<close> and then each
  key of the table on a line of its own, in the order of the table; these are all nine
  keys. It returns 0 and starts no child process.
\<close>

theorem help_prints_usage_and_keys:
  assumes "lower a \<in> help_aliases"
  shows "fst (main e (prog # a # rest)) =
           Print doc # Print ''Available commands:'' #
             map (\<lambda>k. Print (''  '' @ k))
               [''dev'', ''build'', ''test'', ''test:coverage'', ''lint'', ''format'',
                ''install'', ''start'', ''preview'']
         \<and> map fst commands =
               [''dev'', ''build'', ''test'', ''test:coverage'', ''lint'', ''format'',
                ''install'', ''start'', ''preview'']
         \<and> snd (main e (prog # a # rest)) = Inr 0
         \<and> spawned (fst (main e (prog # a # rest))) = []"
proof -
  have m: "main e (prog # a # rest) =
             ([Print doc, Print ''Available commands:'']
                @ map (\<lambda>cmd. Print (''  '' @ cmd)) (keys commands), Inr 0)"
    using assms by (rule main_help)
  have k: "map fst commands =
               [''dev'', ''build'', ''test'', ''test:coverage'', ''lint'', ''format'',
                ''install'', ''start'', ''preview'']"
    using keys_commands by (simp only: keys_def)
  have "spawned (fst (main e (prog # a # rest))) = []"
    by (simp add: m keys_commands spawned_def)
  with m k show ?thesis
    by (simp add: keys_commands)
qed

theorem help_prints_usage_and_keys_witness:
  "fst (main (sample_env 0) [''run.py'', ''HELP'']) =
           Print doc # Print ''Available commands:'' #
             map (\<lambda>k. Print (''  '' @ k))
               [''dev'', ''build'', ''test'', ''test:coverage'', ''lint'', ''format'',
                ''install'', ''start'', ''preview'']
         \<and> map fst commands =
               [''dev'', ''build'', ''test'', ''test:coverage'', ''lint'', ''format'',
                ''install'', ''start'', ''preview'']
         \<and> snd (main (sample_env 0) [''run.py'', ''HELP'']) = Inr 0
         \<and> spawned (fst (main (sample_env 0) [''run.py'', ''HELP''])) = []"
proof -
  have a: "lower ''HELP'' \<in> help_aliases"
    by code_simp
  show ?thesis
    by (rule help_prints_usage_and_keys [OF a])
qed

text \<open>
  Claim C5. With no argument after the program name (\<^verbatim>\<open>sys.argv\<close> shorter than two),
  \<^verbatim>\<open>main\<close> prints the docstring and nothing else, returns 0 and starts no child process.
\<close>

theorem no_argument_prints_usage:
  assumes "length argv < 2"
  shows "main e argv = ([Print doc], Inr 0)
         \<and> stdout (fst (main e argv)) = doc @ [CHR 0x0A]
         \<and> spawned (fst (main e argv)) = []"
  using assms by (simp add: main_short stdout_Print stdout_Nil spawned_def)

theorem no_argument_prints_usage_witness:
  "main (sample_env 3) [''run.py''] = ([Print doc], Inr 0)
   \<and> stdout (fst (main (sample_env 3) [''run.py''])) = doc @ [CHR 0x0A]
   \<and> spawned (fst (main (sample_env 3) [''run.py''])) = []"
proof -
  have a: "length [''run.py''] < 2"
    by simp
  show ?thesis
    by (rule no_argument_prints_usage [OF a])
qed


subsection \<open>Case-insensitive matching\<close>

lemma main_depends_on_lowered:
  "lower a = lower b \<Longrightarrow> main e (p # a # r) = main e (q # b # s)"
  by (simp add: main_def index_def Let_def)

text \<open>
  Claim C6. For every first argument, \<^verbatim>\<open>main\<close> and the script do on it exactly what they do
  on its lowercased form: the same calls of \<^verbatim>\<open>print\<close> and \<^verbatim>\<open>subprocess.run\<close> in the same
  order, and the same result. So \<^verbatim>\<open>BUILD\<close> and \<^verbatim>\<open>build\<close> give the same run.
\<close>

theorem matching_is_case_insensitive:
  "main e (prog # a # rest) = main e (prog # lower a # rest)
   \<and> script e (prog # a # rest) = script e (prog # lower a # rest)"
proof -
  have "lower a = lower (lower a)"
    by (simp add: lower_idem)
  then have "main e (prog # a # rest) = main e (prog # lower a # rest)"
    by (rule main_depends_on_lowered)
  then show ?thesis
    by (simp add: script_def)
qed

theorem matching_is_case_insensitive_witness:
  "main (sample_env 0) [''run.py'', ''BUILD''] = main (sample_env 0) [''run.py'', ''build'']
   \<and> script (sample_env 0) [''run.py'', ''BUILD''] = script (sample_env 0) [''run.py'', ''build'']"
proof -
  have l: "lower ''BUILD'' = ''build''"
    by code_simp
  show ?thesis
    by (rule matching_is_case_insensitive [of "sample_env 0" "''run.py''" "''BUILD''" "[]", unfolded l])
qed

subsection \<open>The echo line\<close>

lemma newline_free_tokens:
  assumes "(k, t) \<in> set commands"
  shows "CHR 0x0A \<notin> set (join '' '' t)"
  using assms unfolding commands_def by auto

text \<open>
  Claim C7. For every known command the effects of \<^verbatim>\<open>main\<close> are, in this order, one
  \<^verbatim>\<open>print\<close> of \<^verbatim>\<open>Running: \<close> followed by the tokens of the invocation joined by single
  spaces, and the call of \<^verbatim>\<open>subprocess.run\<close>. The printed text has no newline in it, so it
  is one line.
\<close>

theorem echo_line_before_child:
  assumes "map_of commands (lower a) = Some tokens"
  shows "fst (main e (prog # a # rest)) =
           [Print (''Running: '' @ join '' '' tokens),
            Run \<lparr>args = tokens, cwd = Some (tool_dir e), shell = True\<rparr>]
         \<and> CHR 0x0A \<notin> set (''Running: '' @ join '' '' tokens)"
proof -
  have "main e (prog # a # rest) = run_command e tokens (Some (tool_dir e))"
    using assms by (rule main_known)
  then have "fst (main e (prog # a # rest)) =
           [Print (''Running: '' @ join '' '' tokens),
            Run \<lparr>args = tokens, cwd = Some (tool_dir e), shell = True\<rparr>]"
    by (simp add: run_command_events)
  moreover from assms have "(lower a, tokens) \<in> set commands"
    by (simp only: map_of_commands_iff)
  then have "CHR 0x0A \<notin> set (join '' '' tokens)"
    by (rule newline_free_tokens)
  then have "CHR 0x0A \<notin> set (''Running: '' @ join '' '' tokens)"
    by simp
  ultimately show ?thesis
    by (rule conjI)
qed

theorem echo_line_before_child_witness:
  "fst (main (sample_env 0) [''run.py'', ''Build'']) =
           [Print ''Running: npm run build'',
            Run \<lparr>args = [''npm'', ''run'', ''build''], cwd = Some ''/srv/portfolio'',
                  shell = True\<rparr>]
   \<and> CHR 0x0A \<notin> set ''Running: npm run build''"
proof -
  have a: "map_of commands (lower ''Build'') = Some [''npm'', ''run'', ''build'']"
    by code_simp
  have j: "''Running: '' @ join '' '' [''npm'', ''run'', ''build''] = ''Running: npm run build''"
    by simp
  have d: "tool_dir (sample_env 0) = ''/srv/portfolio''"
    by (simp add: sample_env_def)
  show ?thesis
    by (rule echo_line_before_child [OF a, of "sample_env 0" "''run.py''" "[]", unfolded j d])
qed


subsection \<open>The invariant of the command table\<close>

text \<open>
  Claim C8. Every value of the table is a non-empty token sequence (its first token is
  \<^verbatim>\<open>npm\<close>), the nine keys are pairwise distinct, and so a lookup finds exactly the entries
  of the literal. The table is the constant \<^const>\<open>commands\<close>: \<^verbatim>\<open>main\<close> builds it as a
  literal and only reads it, by \<^const>\<open>keys\<close>, \<^const>\<open>contains\<close> and \<^const>\<open>getitem\<close>.
\<close>

theorem command_table_invariant:
  "(\<forall>(k, v) \<in> set commands. v \<noteq> [] \<and> hd v = ''npm'')
   \<and> distinct (keys commands)
   \<and> length (keys commands) = 9
   \<and> (\<forall>k v. map_of commands k = Some v \<longleftrightarrow> (k, v) \<in> set commands)"
proof -
  have "\<forall>(k, v) \<in> set commands. v \<noteq> [] \<and> hd v = ''npm''"
    by (simp add: commands_def)
  moreover have "distinct (keys commands)"
    using distinct_keys by (simp only: keys_def)
  moreover have "length (keys commands) = 9"
    by (simp add: keys_commands)
  ultimately show ?thesis
    by (simp add: map_of_commands_iff)
qed

theorem command_table_invariant_witness:
  "(''install'', [''npm'', ''install'']) \<in> set commands
   \<and> [''npm'', ''install''] \<noteq> []
   \<and> hd [''npm'', ''install''] = ''npm''
   \<and> map_of commands ''install'' = Some [''npm'', ''install'']"
proof -
  have m: "(''install'', [''npm'', ''install'']) \<in> set commands"
    by (simp add: commands_def)
  from command_table_invariant have "map_of commands ''install'' = Some [''npm'', ''install'']"
    using m by blast
  with m show ?thesis
    by simp
qed

subsection \<open>Arguments after the first\<close>

text \<open>
  Claim C9. Two argument lists with the same first argument after the program name give
  the same run in the same environment: the same calls of \<^verbatim>\<open>print\<close> and \<^verbatim>\<open>subprocess.run\<close>
  and the same result, which is also the run on the program name and that argument alone.
  Nothing that follows the first argument reaches the child's tokens.
\<close>

theorem later_arguments_ignored:
  "main e (prog # a # rest) = main e (prog' # a # rest')
   \<and> main e (prog # a # rest) = main e [prog, a]
   \<and> script e (prog # a # rest) = script e (prog' # a # rest')"
proof -
  have m: "main e (prog # a # rest) = main e (prog' # a # rest')"
    by (rule main_depends_on_lowered) (rule refl)
  have n: "main e (prog # a # rest) = main e [prog, a]"
    by (rule main_depends_on_lowered) (rule refl)
  have "script e (prog # a # rest) = script e (prog' # a # rest')"
    unfolding script_def by (simp only: m)
  with m n show ?thesis
    by blast
qed

theorem later_arguments_ignored_witness:
  "main (sample_env 2) [''run.py'', ''lint'', ''--fix'', ''src''] = main (sample_env 2) [''run.py'', ''lint'']
   \<and> spawned (fst (main (sample_env 2) [''run.py'', ''lint'', ''--fix'', ''src''])) =
         [\<lparr>args = [''npm'', ''run'', ''lint''], cwd = Some ''/srv/portfolio'', shell = True\<rparr>]"
proof -
  have "main (sample_env 2) [''run.py'', ''lint'', ''--fix'', ''src''] = main (sample_env 2) [''run.py'', ''lint'']"
    using later_arguments_ignored [of "sample_env 2" "''run.py''" "''lint''" "[''--fix'', ''src'']" "''run.py''" "[]"]
    by blast
  moreover have "spawned (fst (main (sample_env 2) [''run.py'', ''lint''])) =
         [\<lparr>args = [''npm'', ''run'', ''lint''], cwd = Some ''/srv/portfolio'', shell = True\<rparr>]"
    by code_simp
  ultimately show ?thesis
    by simp
qed


subsection \<open>Totality of the dispatch\<close>

text \<open>
  \<^const>\<open>main\<close> is a plain definition over \<^const>\<open>run_command\<close>, \<^const>\<open>join\<close> and a map over the
  nine keys: it has a value for every environment and argument list, so every run of the
  dispatch ends. What is left to show is which value.
\<close>

lemma two_arguments:
  assumes "\<not> length argv < 2"
  obtains p a r where "argv = p # a # r"
proof (cases argv)
  case Nil
  with assms show ?thesis by simp
next
  case outer: (Cons p xs)
  show ?thesis
  proof (cases xs)
    case Nil
    with outer assms show ?thesis by simp
  next
    case (Cons a r)
    with outer have "argv = p # a # r" by simp
    then show ?thesis by (rule that)
  qed
qed

lemma main_status:
  "if length argv < 2 then main e argv = ([Print doc], Inr 0)
   else if lower (argv ! 1) \<in> help_aliases then
     snd (main e argv) = Inr 0 \<and> spawned (fst (main e argv)) = []
   else case map_of commands (lower (argv ! 1)) of
     None \<Rightarrow> snd (main e argv) = Inr 1 \<and> spawned (fst (main e argv)) = []
   | Some t \<Rightarrow>
       spawned (fst (main e argv)) = [\<lparr>args = t, cwd = Some (tool_dir e), shell = True\<rparr>]
       \<and> snd (main e argv) =
           (case subprocess_run e \<lparr>args = t, cwd = Some (tool_dir e), shell = True\<rparr> of
              Inl x \<Rightarrow> Inl (Raised x) | Inr rc \<Rightarrow> Inr rc)"
proof (cases "length argv < 2")
  case True
  then show ?thesis
    by (simp add: main_short)
next
  case False
  then obtain p a r where argv: "argv = p # a # r"
    by (rule two_arguments)
  then have a: "argv ! 1 = a"
    by simp
  show ?thesis
  proof (cases "lower a \<in> help_aliases")
    case True
    then have "main e argv =
           ([Print doc, Print ''Available commands:'']
              @ map (\<lambda>cmd. Print (''  '' @ cmd)) (keys commands), Inr 0)"
      unfolding argv by (rule main_help)
    then have "snd (main e argv) = Inr 0 \<and> spawned (fst (main e argv)) = []"
      by (simp add: keys_commands spawned_def)
    with False True show ?thesis
      by (simp only: a if_True if_False)
  next
    case nohelp: False
    show ?thesis
    proof (cases "map_of commands (lower a)")
      case None
      then have "main e argv =
           ([Print (''Unknown command: '' @ lower a),
             Print ''Run 'python run.py help' for available commands.''], Inr 1)"
        unfolding argv using nohelp by (rule main_unknown)
      then have "snd (main e argv) = Inr 1 \<and> spawned (fst (main e argv)) = []"
        by (simp add: spawned_def)
      with False nohelp None show ?thesis
        by (simp only: a if_True if_False option.case)
    next
      case (Some t)
      then have "main e argv = run_command e t (Some (tool_dir e))"
        unfolding argv by (rule main_known)
      then have "spawned (fst (main e argv)) =
                [\<lparr>args = t, cwd = Some (tool_dir e), shell = True\<rparr>]
          \<and> snd (main e argv) =
                (case subprocess_run e \<lparr>args = t, cwd = Some (tool_dir e), shell = True\<rparr> of
                   Inl x \<Rightarrow> Inl (Raised x) | Inr rc \<Rightarrow> Inr rc)"
        by (simp add: run_command_events run_command_value spawned_def)
      with False nohelp Some show ?thesis
        by (simp only: a if_True if_False option.case)
    qed
  qed
qed

lemma main_no_own_error:
  "snd (main e argv) \<noteq> Inl IndexError \<and> snd (main e argv) \<noteq> Inl KeyError"
proof (cases "length argv < 2")
  case True
  then show ?thesis
    by (simp add: main_short)
next
  case False
  show ?thesis
  proof (cases "lower (argv ! 1) \<in> help_aliases")
    case True
    with False main_status [of argv e] have "snd (main e argv) = Inr 0"
      by (simp only: if_True if_False)
    then show ?thesis
      by simp
  next
    case nohelp: False
    show ?thesis
    proof (cases "map_of commands (lower (argv ! 1))")
      case None
      with False nohelp main_status [of argv e] have "snd (main e argv) = Inr 1"
        by (simp only: if_True if_False option.case)
      then show ?thesis
        by simp
    next
      case (Some t)
      with False nohelp main_status [of argv e]
      have "snd (main e argv) =
              (case subprocess_run e \<lparr>args = t, cwd = Some (tool_dir e), shell = True\<rparr> of
                 Inl x \<Rightarrow> Inl (Raised x) | Inr rc \<Rightarrow> Inr rc)"
        by (simp only: if_True if_False option.case)
      then show ?thesis
        by (simp split: sum.split)
    qed
  qed
qed

lemma main_branches_reachable:
  "(\<exists>argv. length argv < 2 \<and> snd (main e argv) = Inr 0)
   \<and> (\<exists>argv. 2 \<le> length argv \<and> snd (main e argv) = Inr 0)
   \<and> (\<exists>argv. snd (main e argv) = Inr 1)
   \<and> (\<exists>argv. spawned (fst (main e argv)) \<noteq> [])"
proof (intro conjI)
  have "length [''run.py''] < 2 \<and> snd (main e [''run.py'']) = Inr 0"
    by (simp add: main_short)
  then show "\<exists>argv. length argv < 2 \<and> snd (main e argv) = Inr 0"
    by (rule exI)
next
  have "lower ''help'' \<in> help_aliases"
    by code_simp
  then have "main e [''run.py'', ''help''] =
           ([Print doc, Print ''Available commands:'']
              @ map (\<lambda>cmd. Print (''  '' @ cmd)) (keys commands), Inr 0)"
    by (rule main_help)
  then have "2 \<le> length [''run.py'', ''help''] \<and> snd (main e [''run.py'', ''help'']) = Inr 0"
    by simp
  then show "\<exists>argv. 2 \<le> length argv \<and> snd (main e argv) = Inr 0"
    by (rule exI)
next
  have "map_of commands (lower ''frobnicate'') = None"
    by code_simp
  moreover have "lower ''frobnicate'' \<notin> help_aliases"
    by code_simp
  ultimately have "main e [''run.py'', ''frobnicate''] =
           ([Print (''Unknown command: '' @ lower ''frobnicate''),
             Print ''Run 'python run.py help' for available commands.''], Inr 1)"
    by (rule main_unknown)
  then have "snd (main e [''run.py'', ''frobnicate'']) = Inr 1"
    by simp
  then show "\<exists>argv. snd (main e argv) = Inr 1"
    by (rule exI)
next
  have "map_of commands (lower ''dev'') = Some [''npm'', ''run'', ''dev'']"
    by code_simp
  then have "main e [''run.py'', ''dev''] =
               run_command e [''npm'', ''run'', ''dev''] (Some (tool_dir e))"
    by (rule main_known)
  then have "spawned (fst (main e [''run.py'', ''dev''])) \<noteq> []"
    by (simp add: run_command_events spawned_def)
  then show "\<exists>argv. spawned (fst (main e argv)) \<noteq> []"
    by (rule exI)
qed

text \<open>
  Claim C10. For every argument list the result of \<^verbatim>\<open>main\<close> is: 0 when there is no
  argument; 0 when the lowercased argument is a help alias; 1 when it is no key of the
  table; and for a key, whatever the one call of \<^verbatim>\<open>subprocess.run\<close> gives, its return code
  or the exception it raised. Neither \<^verbatim>\<open>sys.argv[1]\<close> nor \<^verbatim>\<open>commands[command]\<close> ever
  raises, and each of the four \<^verbatim>\<open>return\<close> statements is reached by some argument list.
\<close>

theorem main_total:
  "(if length argv < 2 then main e argv = ([Print doc], Inr 0)
    else if lower (argv ! 1) \<in> help_aliases then
      snd (main e argv) = Inr 0 \<and> spawned (fst (main e argv)) = []
    else case map_of commands (lower (argv ! 1)) of
      None \<Rightarrow> snd (main e argv) = Inr 1 \<and> spawned (fst (main e argv)) = []
    | Some t \<Rightarrow>
        spawned (fst (main e argv)) = [\<lparr>args = t, cwd = Some (tool_dir e), shell = True\<rparr>]
        \<and> snd (main e argv) =
            (case subprocess_run e \<lparr>args = t, cwd = Some (tool_dir e), shell = True\<rparr> of
               Inl x \<Rightarrow> Inl (Raised x) | Inr rc \<Rightarrow> Inr rc))
   \<and> (snd (main e argv) \<noteq> Inl IndexError \<and> snd (main e argv) \<noteq> Inl KeyError)
   \<and> ((\<exists>argv. length argv < 2 \<and> snd (main e argv) = Inr 0)
      \<and> (\<exists>argv. 2 \<le> length argv \<and> snd (main e argv) = Inr 0)
      \<and> (\<exists>argv. snd (main e argv) = Inr 1)
      \<and> (\<exists>argv. spawned (fst (main e argv)) \<noteq> []))"
  by (intro conjI main_status main_no_own_error [THEN conjunct1]
        main_no_own_error [THEN conjunct2] main_branches_reachable)

theorem main_total_witness:
  "snd (main (sample_env 5) [''run.py'', ''test'']) = Inr 5
   \<and> snd (main (sample_env 5) [''run.py'', ''test'']) \<noteq> Inl IndexError
   \<and> snd (main (sample_env 5) [''run.py'', ''test'']) \<noteq> Inl KeyError"
proof -
  have l: "\<not> length [''run.py'', ''test''] < 2"
    by simp
  have a: "[''run.py'', ''test''] ! 1 = ''test''"
    by simp
  have h: "lower ''test'' \<notin> help_aliases"
    by code_simp
  have m: "map_of commands (lower ''test'') = Some [''npm'', ''run'', ''test'']"
    by code_simp
  have s: "subprocess_run (sample_env 5)
             \<lparr>args = [''npm'', ''run'', ''test''], cwd = Some (tool_dir (sample_env 5)),
               shell = True\<rparr> = Inr 5"
    by (simp add: sample_env_def)
  note t = main_total [of "[''run.py'', ''test'']" "sample_env 5"]
  from t [THEN conjunct1] l h m s
  have "snd (main (sample_env 5) [''run.py'', ''test'']) = Inr 5"
    by (simp only: a if_False option.case sum.case)
  then show ?thesis
    by simp
qed


end
